theory Spec2Isabelle
  imports Main
begin

section \<open>The pipeline script\<close>

text \<open>
  The repository is one Python script, \<^verbatim>\<open>pipeline/pipeline.py\<close>:
  \<^verbatim>\<open>
  from calendar import month
  import sys
  import pandas as pd

  print("arguments", sys.argv)
  day = int(sys.argv[1])
  print(f"Running pipeline for day {day}")

  df = pd.DataFrame({"day": [1, 2], "num_passengers": [3, 4]})
  month = 2
  df['month'] = month
  print(df.head())
  df.to_parquet(f"output_{month}.parquet")
  \<close>
  The script is embedded as the function \<open>main\<close> from the interpreter's argument vector
  \<open>sys.argv\<close> (script name first) and the world before the run to the uncaught exception,
  if any, and the world after the run. The world holds what the script can change: the
  sequence of effects performed so far and the files of the working directory.

  The imports bind names and change nothing in the world; the name \<open>month\<close> imported
  from \<open>calendar\<close> is rebound to 2 before its first use.

  A Python \<open>str\<close> is a \<open>string\<close>, one \<open>char\<close> per code point; the model covers the
  strings whose code points are below 256. Python's unbounded \<open>int\<close> is \<open>int\<close>.
\<close>

subsection \<open>Exceptions and the exit status\<close>

datatype py_error = IndexError | ValueError

text \<open>
  The interpreter exits with status 0 when the script runs to its end and with status 1
  when an exception reaches the top level.
\<close>

fun exit_code :: "py_error option \<Rightarrow> nat" where
  "exit_code None = 0"
| "exit_code (Some e) = 1"

subsection \<open>Subscription \<open>xs[i]\<close> with a non-negative index\<close>

definition getitem :: "'a list \<Rightarrow> nat \<Rightarrow> py_error + 'a" where
  "getitem xs i = (if i < length xs then Inr (xs ! i) else Inl IndexError)"

subsection \<open>The builtin \<open>int\<close> on a string, base 10\<close>

text \<open>
  \<open>int(s)\<close> skips leading whitespace, reads one optional sign, refuses a leading
  underscore, reads decimal digits in which single underscores may separate two digits,
  skips trailing whitespace and must then be at the end of the string; anything else is a
  \<open>ValueError\<close>. The whitespace characters below 256 are tab, line feed, vertical tab,
  form feed, carriage return, space, next line (0x85) and no-break space (0xA0); the
  decimal digits below 256 are 0 to 9. Leading zeros are read as digits.

  The digit loop counts the digits it reads, leading zeros included and underscores not.
  A count above the interpreter's limit for the conversion of a string to an integer is a
  \<open>ValueError\<close> as well. The script does not change the limit, so it is the interpreter's
  default, 4300.
\<close>

definition max_str_digits :: nat where
  "max_str_digits = 4300"

definition is_space :: "char \<Rightarrow> bool" where
  "is_space c \<longleftrightarrow> c \<in> set [CHR 0x09, CHR 0x0A, CHR 0x0B, CHR 0x0C, CHR 0x0D, CHR '' '',
                             CHR 0x85, CHR 0xA0]"

definition is_digit :: "char \<Rightarrow> bool" where
  "is_digit c \<longleftrightarrow> c \<in> set ''0123456789''"

definition digit_value :: "char \<Rightarrow> nat" where
  "digit_value c = of_char c - 48"

text \<open>
  \<open>scan_digits acc k s\<close> runs after a first digit has been read, with the value read so far
  and the number of digits read so far: it returns the value of the digits, their number
  and the rest of the string, or \<open>None\<close> when an underscore is not followed by a digit.
\<close>

fun scan_digits :: "nat \<Rightarrow> nat \<Rightarrow> string \<Rightarrow> (nat \<times> nat \<times> string) option" where
  "scan_digits acc k [] = Some (acc, k, [])"
| "scan_digits acc k (c # cs) =
     (if is_digit c then scan_digits (acc * 10 + digit_value c) (Suc k) cs
      else if c = CHR ''_'' then
        (case cs of
           [] \<Rightarrow> None
         | d # ds \<Rightarrow>
             if is_digit d then scan_digits (acc * 10 + digit_value d) (Suc k) ds else None)
      else Some (acc, k, c # cs))"

definition read_sign :: "string \<Rightarrow> bool \<times> string" where
  "read_sign s =
     (case s of
        [] \<Rightarrow> (False, [])
      | c # cs \<Rightarrow>
          if c = CHR ''+'' then (False, cs)
          else if c = CHR ''-'' then (True, cs)
          else (False, c # cs))"

definition py_int :: "string \<Rightarrow> py_error + int" where
  "py_int s =
     (let (neg, body) = read_sign (dropWhile is_space s) in
      case body of
        [] \<Rightarrow> Inl ValueError
      | c # cs \<Rightarrow>
          if \<not> is_digit c then Inl ValueError
          else
            (case scan_digits (digit_value c) 1 cs of
               None \<Rightarrow> Inl ValueError
             | Some (n, digits, rest) \<Rightarrow>
                 if max_str_digits < digits then Inl ValueError
                 else if list_all is_space rest then Inr (if neg then - int n else int n)
                 else Inl ValueError))"

subsection \<open>\<open>str\<close> of an integer\<close>

fun str_nat :: "nat \<Rightarrow> string" where
  "str_nat n =
     (if n < 10 then [''0123456789'' ! n]
      else str_nat (n div 10) @ [''0123456789'' ! (n mod 10)])"

declare str_nat.simps [simp del]

definition py_str :: "int \<Rightarrow> string" where
  "py_str i = (if i < 0 then CHR ''-'' # str_nat (nat (- i)) else str_nat (nat i))"

subsection \<open>Data frames\<close>

text \<open>
  A data frame is its number of rows (the length of its index, a range from 0) and its
  columns in order, each a label and the integer values of the column.
\<close>

record dataframe =
  nrows :: nat
  columns :: "(string \<times> int list) list"

text \<open>
  \<open>pd.DataFrame(d)\<close> on a dictionary of lists, its items in insertion order: the columns
  are the items; lists of different lengths are a \<open>ValueError\<close>.
\<close>

definition DataFrame :: "(string \<times> int list) list \<Rightarrow> py_error + dataframe" where
  "DataFrame d =
     (case d of
        [] \<Rightarrow> Inr \<lparr>nrows = 0, columns = []\<rparr>
      | (k, vs) # rest \<Rightarrow>
          if list_all (\<lambda>(k', vs'). length vs' = length vs) rest
          then Inr \<lparr>nrows = length vs, columns = d\<rparr>
          else Inl ValueError)"

text \<open>
  \<open>df[label] = v\<close> with a scalar \<open>v\<close>: every row gets \<open>v\<close>; an existing column keeps its
  position, a new one is appended.
\<close>

fun set_column :: "string \<Rightarrow> int list \<Rightarrow> (string \<times> int list) list \<Rightarrow> (string \<times> int list) list" where
  "set_column label vs [] = [(label, vs)]"
| "set_column label vs ((k, old) # cols) =
     (if k = label then (k, vs) # cols else (k, old) # set_column label vs cols)"

definition setitem :: "dataframe \<Rightarrow> string \<Rightarrow> int \<Rightarrow> dataframe" where
  "setitem df label v = df\<lparr>columns := set_column label (replicate (nrows df) v) (columns df)\<rparr>"

text \<open>\<open>df.head(n)\<close>: the first \<open>n\<close> rows; the script calls it with the default \<open>n = 5\<close>.\<close>

definition head :: "dataframe \<Rightarrow> nat \<Rightarrow> dataframe" where
  "head df n = \<lparr>nrows = min n (nrows df), columns = map (\<lambda>(k, vs). (k, take n vs)) (columns df)\<rparr>"

text \<open>The rows of a data frame, each the list of its cells with their column labels.\<close>

definition rows :: "dataframe \<Rightarrow> (string \<times> int) list list" where
  "rows df = map (\<lambda>i. map (\<lambda>(k, vs). (k, vs ! i)) (columns df)) [0..<nrows df]"

subsection \<open>The world: console and files\<close>

text \<open>
  \<open>print\<close> writes the text of its arguments to the console; the model records the
  objects printed. \<open>to_parquet\<close> writes the data frame to a path, replacing a file already
  there; the content of a file is the data frame written to it. The model describes the
  runs in which the console and the file writer work.
\<close>

datatype py_object = Str string | StrList "string list" | Frame dataframe

datatype event = Print "py_object list" | Write string dataframe

record world =
  events :: "event list"
  files :: "string \<rightharpoonup> dataframe"

definition print :: "py_object list \<Rightarrow> world \<Rightarrow> world" where
  "print objs w = w\<lparr>events := events w @ [Print objs]\<rparr>"

definition to_parquet :: "dataframe \<Rightarrow> string \<Rightarrow> world \<Rightarrow> world" where
  "to_parquet df path w =
     w\<lparr>events := events w @ [Write path df], files := (files w)(path \<mapsto> df)\<rparr>"

subsection \<open>The script\<close>

definition main :: "string list \<Rightarrow> world \<Rightarrow> py_error option \<times> world" where
  "main argv w0 =
     (let w1 = print [Str ''arguments'', StrList argv] w0 in
      case getitem argv 1 of
        Inl e \<Rightarrow> (Some e, w1)
      | Inr arg \<Rightarrow>
          (case py_int arg of
             Inl e \<Rightarrow> (Some e, w1)
           | Inr day \<Rightarrow>
               (let w2 = print [Str (''Running pipeline for day '' @ py_str day)] w1 in
                case DataFrame [(''day'', [1, 2]), (''num_passengers'', [3, 4])] of
                  Inl e \<Rightarrow> (Some e, w2)
                | Inr df0 \<Rightarrow>
                    (let month = 2;
                         df = setitem df0 ''month'' month;
                         w3 = print [Frame (head df 5)] w2;
                         w4 = to_parquet df (''output_'' @ py_str month @ ''.parquet'') w3
                     in (None, w4)))))"


subsection \<open>Observations on a world\<close>

text \<open>The file writes of a sequence of effects, in order: path and table written.\<close>

fun written :: "event list \<Rightarrow> (string \<times> dataframe) list" where
  "written [] = []"
| "written (Print objs # es) = written es"
| "written (Write path df # es) = (path, df) # written es"

text \<open>The console prints of a sequence of effects, in order.\<close>

fun printed :: "event list \<Rightarrow> py_object list list" where
  "printed [] = []"
| "printed (Print objs # es) = objs # printed es"
| "printed (Write path df # es) = printed es"

subsection \<open>Integer literals, as the specification words them\<close>

text \<open>
  The specification calls the accepted arguments valid integer literals: decimal digits,
  optionally signed and optionally surrounded by whitespace. \<open>dec_digits\<close> is the digit
  part, written as a grammar: a digit, followed by further digits, each optionally
  preceded by one underscore (the digit grouping of the language's integer literals).
  \<open>int_literal\<close> adds the whitespace and the sign around it.
\<close>

inductive dec_digits :: "string \<Rightarrow> bool" where
  one: "is_digit c \<Longrightarrow> dec_digits [c]"
| more: "is_digit c \<Longrightarrow> dec_digits r \<Longrightarrow> dec_digits (c # r)"
| sep: "is_digit c \<Longrightarrow> dec_digits r \<Longrightarrow> dec_digits (c # CHR ''_'' # r)"

definition int_literal :: "string \<Rightarrow> bool" where
  "int_literal s \<longleftrightarrow>
     (\<exists>pre sgn body post.
        s = pre @ sgn @ body @ post \<and> list_all is_space pre \<and>
        (sgn = [] \<or> sgn = ''+'' \<or> sgn = ''-'') \<and> dec_digits body \<and> list_all is_space post)"

text \<open>The number of decimal digits in a string.\<close>

definition count_digits :: "string \<Rightarrow> nat" where
  "count_digits s = length (filter is_digit s)"

section \<open>The parser against the grammar\<close>

lemma space_not_digit: "is_space c \<Longrightarrow> \<not> is_digit c"
  by (auto simp: is_space_def is_digit_def)

lemma space_not_underscore: "is_space c \<Longrightarrow> c \<noteq> CHR ''_''"
  by (auto simp: is_space_def)

lemma digit_not_space: "is_digit c \<Longrightarrow> \<not> is_space c"
  using space_not_digit by blast

lemma digit_not_sign: "is_digit c \<Longrightarrow> c \<noteq> CHR ''+'' \<and> c \<noteq> CHR ''-''"
  by (auto simp: is_digit_def)

lemma sign_not_space: "\<not> is_space CHR ''+''" "\<not> is_space CHR ''-''"
  by (simp_all add: is_space_def)

lemma scan_digits_spaces:
  "list_all is_space post \<Longrightarrow> scan_digits acc k post = Some (acc, k, post)"
  by (cases post) (auto simp: space_not_digit space_not_underscore)

lemma dec_digits_nonempty: "dec_digits b \<Longrightarrow> b \<noteq> [] \<and> is_digit (hd b)"
  by (induction rule: dec_digits.induct) auto

lemma underscore_not_digit: "\<not> is_digit CHR ''_''"
  by (simp add: is_digit_def)

lemma count_digits_Cons:
  "count_digits (c # cs) = (if is_digit c then Suc (count_digits cs) else count_digits cs)"
  by (simp add: count_digits_def)

lemma count_digits_append: "count_digits (xs @ ys) = count_digits xs + count_digits ys"
  by (simp add: count_digits_def)

lemma count_digits_spaces: "list_all is_space xs \<Longrightarrow> count_digits xs = 0"
  by (induction xs) (auto simp: count_digits_def space_not_digit)

lemma count_digits_sign:
  "sg = [] \<or> sg = ''+'' \<or> sg = ''-'' \<Longrightarrow> count_digits sg = 0"
  by (auto simp: count_digits_def is_digit_def)

text \<open>
  Completeness of the digit loop: it reads every digit part up to the whitespace and
  counts its digits.
\<close>

lemma scan_digits_complete:
  "dec_digits b \<Longrightarrow> list_all is_space post \<Longrightarrow>
   \<exists>n. scan_digits acc k (tl b @ post) = Some (n, k + count_digits (tl b), post)"
proof (induction arbitrary: acc k rule: dec_digits.induct)
  case (one c)
  then show ?case by (simp add: scan_digits_spaces count_digits_def)
next
  case (more c r)
  from more.hyps(2) obtain d ds where r: "r = d # ds" and d: "is_digit d"
    using dec_digits_nonempty by (cases r) auto
  from more.IH [OF more.prems, of "acc * 10 + digit_value d" "Suc k"] r d
  show ?case by (simp add: count_digits_Cons)
next
  case (sep c r)
  from sep.hyps(2) obtain d ds where r: "r = d # ds" and d: "is_digit d"
    using dec_digits_nonempty by (cases r) auto
  from sep.IH [OF sep.prems, of "acc * 10 + digit_value d" "Suc k"] r d
  show ?case by (simp add: count_digits_Cons underscore_not_digit)
qed

text \<open>
  Soundness of the digit loop: what it has read after a digit is a digit part, and the
  count it returns is the count it started with plus the digits read.
\<close>

lemma scan_digits_sound:
  "scan_digits acc k cs = Some (n, k', rest) \<Longrightarrow>
   \<exists>mid. cs = mid @ rest \<and> k' = k + count_digits mid \<and>
     (\<forall>c. is_digit c \<longrightarrow> dec_digits (c # mid))"
proof (induction acc k cs rule: scan_digits.induct)
  case (1 acc k)
  then show ?case by (auto intro: dec_digits.one simp: count_digits_def)
next
  case (2 acc k c cs)
  show ?case
  proof (cases "is_digit c")
    case True
    with 2 obtain mid where "cs = mid @ rest" "k' = Suc k + count_digits mid"
      "\<forall>c. is_digit c \<longrightarrow> dec_digits (c # mid)"
      by auto
    with True have "c # cs = (c # mid) @ rest \<and> k' = k + count_digits (c # mid) \<and>
        (\<forall>e. is_digit e \<longrightarrow> dec_digits (e # c # mid))"
      by (auto intro: dec_digits.more simp: count_digits_Cons)
    then show ?thesis by blast
  next
    case nd: False
    show ?thesis
    proof (cases "c = CHR ''_''")
      case True
      with nd "2.prems" obtain d ds where cs: "cs = d # ds" and d: "is_digit d"
        and sc: "scan_digits (acc * 10 + digit_value d) (Suc k) ds = Some (n, k', rest)"
        by (auto split: list.splits if_splits)
      from "2.IH"(2) [OF nd True cs d sc]
      obtain mid where "ds = mid @ rest" "k' = Suc k + count_digits mid"
        "\<forall>c. is_digit c \<longrightarrow> dec_digits (c # mid)"
        by auto
      with True cs d nd
      have "c # cs = (c # d # mid) @ rest \<and> k' = k + count_digits (c # d # mid) \<and>
          (\<forall>e. is_digit e \<longrightarrow> dec_digits (e # c # d # mid))"
        by (auto intro: dec_digits.sep simp: count_digits_Cons)
      then show ?thesis by blast
    next
      case False
      with nd "2.prems" have "rest = c # cs" "k' = k" by simp_all
      then have "c # cs = [] @ rest \<and> k' = k + count_digits [] \<and>
          (\<forall>e. is_digit e \<longrightarrow> dec_digits (e # []))"
        by (auto intro: dec_digits.one simp: count_digits_def)
      then show ?thesis by blast
    qed
  qed
qed

lemma py_int_error: "py_int s = Inl e \<Longrightarrow> e = ValueError"
  by (auto simp: py_int_def Let_def split: prod.splits list.splits if_splits option.splits)

text \<open>The parser accepts every literal whose digits are within the limit.\<close>

lemma py_int_accepts_literal:
  assumes "int_literal s" and "count_digits s \<le> max_str_digits"
  shows "\<exists>n. py_int s = Inr n"
proof -
  from assms(1) obtain pre sgn body post where s: "s = pre @ sgn @ body @ post"
    and pre: "list_all is_space pre" and sgn: "sgn = [] \<or> sgn = ''+'' \<or> sgn = ''-''"
    and body: "dec_digits body" and post: "list_all is_space post"
    unfolding int_literal_def by blast
  from body obtain c cs where b: "body = c # cs" and c: "is_digit c"
    using dec_digits_nonempty by (cases body) auto
  from scan_digits_complete [OF body post, of "digit_value c" 1] b
  obtain n where n: "scan_digits (digit_value c) 1 (cs @ post) = Some (n, 1 + count_digits cs, post)"
    by auto
  have "count_digits s = count_digits body"
    unfolding s
    by (simp add: count_digits_append count_digits_spaces [OF pre] count_digits_spaces [OF post]
        count_digits_sign [OF sgn])
  with b c assms(2) have lim: "\<not> max_str_digits < 1 + count_digits cs"
    by (simp add: count_digits_Cons)
  have hd: "\<not> is_space (hd (sgn @ body @ post))"
    using sgn b c by (auto simp: sign_not_space digit_not_space)
  have ne: "sgn @ body @ post \<noteq> []"
    using b by simp
  have "dropWhile is_space s = dropWhile is_space (sgn @ body @ post)"
    unfolding s using pre by (simp add: list_all_iff)
  also have "\<dots> = sgn @ body @ post"
    using hd ne by (cases "sgn @ body @ post") auto
  finally have dw: "dropWhile is_space s = sgn @ c # cs @ post"
    using b by simp
  have "\<exists>neg. read_sign (sgn @ c # cs @ post) = (neg, c # cs @ post)"
    using sgn digit_not_sign [OF c] by (auto simp: read_sign_def)
  then obtain neg where "read_sign (dropWhile is_space s) = (neg, c # cs @ post)"
    using dw by auto
  then show ?thesis
    using c n post lim by (simp add: py_int_def)
qed

lemma read_sign_decompose:
  "read_sign t = (neg, body) \<Longrightarrow> \<exists>sgn. t = sgn @ body \<and> (sgn = [] \<or> sgn = ''+'' \<or> sgn = ''-'')"
  by (auto simp: read_sign_def split: list.splits if_splits)

text \<open>What the parser accepts is a literal whose digits are within the limit.\<close>

lemma py_int_literal:
  assumes "py_int s = Inr n"
  shows "int_literal s \<and> count_digits s \<le> max_str_digits"
proof -
  obtain neg body where rs: "read_sign (dropWhile is_space s) = (neg, body)"
    by (cases "read_sign (dropWhile is_space s)")
  with assms obtain c cs m k rest where body: "body = c # cs" and c: "is_digit c"
    and sc: "scan_digits (digit_value c) 1 cs = Some (m, k, rest)"
    and lim: "\<not> max_str_digits < k" and rest: "list_all is_space rest"
    by (auto simp: py_int_def split: list.splits if_splits option.splits)
  from scan_digits_sound [OF sc] c obtain mid where mid: "cs = mid @ rest"
    "k = 1 + count_digits mid" "dec_digits (c # mid)"
    by blast
  from read_sign_decompose [OF rs] obtain sgn where
    sgn: "dropWhile is_space s = sgn @ body" "sgn = [] \<or> sgn = ''+'' \<or> sgn = ''-''"
    by blast
  have pre: "list_all is_space (takeWhile is_space s)"
    by (auto simp: list_all_iff dest: set_takeWhileD)
  have "s = takeWhile is_space s @ dropWhile is_space s"
    by simp
  then have s: "s = takeWhile is_space s @ sgn @ (c # mid) @ rest"
    using sgn(1) body mid(1) by simp
  have "count_digits s = count_digits (takeWhile is_space s @ sgn @ (c # mid) @ rest)"
    using s by simp
  also have "\<dots> = 1 + count_digits mid"
    using c
    by (simp add: count_digits_append count_digits_spaces [OF pre] count_digits_spaces [OF rest]
        count_digits_sign [OF sgn(2)] count_digits_Cons)
  finally have "count_digits s \<le> max_str_digits"
    using lim mid(2) by simp
  moreover have "int_literal s"
    unfolding int_literal_def using s pre sgn(2) mid(3) rest by blast
  ultimately show ?thesis by simp
qed

lemma py_int_rejects_iff:
  "py_int s = Inl ValueError \<longleftrightarrow> \<not> (int_literal s \<and> count_digits s \<le> max_str_digits)"
proof
  assume "py_int s = Inl ValueError"
  then show "\<not> (int_literal s \<and> count_digits s \<le> max_str_digits)"
    using py_int_accepts_literal by fastforce
next
  assume n: "\<not> (int_literal s \<and> count_digits s \<le> max_str_digits)"
  show "py_int s = Inl ValueError"
  proof (cases "py_int s")
    case (Inl e)
    then show ?thesis using py_int_error by blast
  next
    case (Inr n')
    with n show ?thesis using py_int_literal by blast
  qed
qed

text \<open>A string of more digits than the limit: a literal that the parser refuses.\<close>

lemma dec_digits_replicate: "is_digit c \<Longrightarrow> dec_digits (replicate (Suc n) c)"
  by (induction n) (auto intro: dec_digits.one dec_digits.more)

lemma count_digits_replicate: "is_digit c \<Longrightarrow> count_digits (replicate n c) = n"
  by (simp add: count_digits_def)

lemma int_literal_ones: "int_literal (replicate (Suc n) CHR ''1'')"
proof -
  have "dec_digits (replicate (Suc n) CHR ''1'')"
    by (rule dec_digits_replicate) (simp add: is_digit_def)
  then have "replicate (Suc n) CHR ''1'' = [] @ [] @ replicate (Suc n) CHR ''1'' @ [] \<and>
      list_all is_space [] \<and> dec_digits (replicate (Suc n) CHR ''1'') \<and> list_all is_space []"
    by simp
  then show ?thesis
    unfolding int_literal_def by blast
qed

lemma py_int_long_ones:
  "max_str_digits < n \<Longrightarrow> py_int (replicate n CHR ''1'') = Inl ValueError"
  by (simp add: py_int_rejects_iff count_digits_replicate is_digit_def)

section \<open>The three ways a run ends\<close>

lemma written_append: "written (es @ fs) = written es @ written fs"
  by (induction es rule: written.induct) simp_all

lemma printed_append: "printed (es @ fs) = printed es @ printed fs"
  by (induction es rule: printed.induct) simp_all

lemma py_str_2: "py_str 2 = ''2''"
  by (simp add: py_str_def str_nat.simps)

lemma DataFrame_sample:
  "DataFrame [(''day'', [1, 2]), (''num_passengers'', [3, 4])] =
   Inr \<lparr>nrows = 2, columns = [(''day'', [1, 2]), (''num_passengers'', [3, 4])]\<rparr>"
  by (simp add: DataFrame_def)

lemma setitem_month:
  "setitem \<lparr>nrows = 2, columns = [(''day'', [1, 2]), (''num_passengers'', [3, 4])]\<rparr> ''month'' 2 =
   \<lparr>nrows = 2, columns = [(''day'', [1, 2]), (''num_passengers'', [3, 4]), (''month'', [2, 2])]\<rparr>"
  by (simp add: setitem_def numeral_2_eq_2)

lemma head_table:
  "head \<lparr>nrows = 2, columns = [(''day'', [1, 2]), (''num_passengers'', [3, 4]), (''month'', [2, 2])]\<rparr> 5 =
   \<lparr>nrows = 2, columns = [(''day'', [1, 2]), (''num_passengers'', [3, 4]), (''month'', [2, 2])]\<rparr>"
  by (simp add: head_def)

lemma main_missing_argument:
  "length argv < 2 \<Longrightarrow>
   main argv w = (Some IndexError, w\<lparr>events := events w @ [Print [Str ''arguments'', StrList argv]]\<rparr>)"
  by (simp add: main_def getitem_def print_def)

lemma main_parse_error:
  "py_int a = Inl e \<Longrightarrow>
   main (s # a # r) w =
     (Some e, w\<lparr>events := events w @ [Print [Str ''arguments'', StrList (s # a # r)]]\<rparr>)"
  by (simp add: main_def getitem_def print_def)

lemma main_parsed:
  "py_int a = Inr day \<Longrightarrow>
   main (s # a # r) w =
     (None,
      w\<lparr>events := events w @
           [Print [Str ''arguments'', StrList (s # a # r)],
            Print [Str (''Running pipeline for day '' @ py_str day)],
            Print [Frame \<lparr>nrows = 2, columns =
              [(''day'', [1, 2]), (''num_passengers'', [3, 4]), (''month'', [2, 2])]\<rparr>],
            Write ''output_2.parquet'' \<lparr>nrows = 2, columns =
              [(''day'', [1, 2]), (''num_passengers'', [3, 4]), (''month'', [2, 2])]\<rparr>],
        files := (files w)(''output_2.parquet'' \<mapsto> \<lparr>nrows = 2, columns =
              [(''day'', [1, 2]), (''num_passengers'', [3, 4]), (''month'', [2, 2])]\<rparr>)\<rparr>)"
  by (simp add: main_def getitem_def print_def to_parquet_def DataFrame_sample setitem_month
      head_table py_str_2 Let_def)

lemma main_success:
  "fst (main argv w) = None \<Longrightarrow> \<exists>s a r day. argv = s # a # r \<and> py_int a = Inr day"
proof (cases argv)
  case Nil
  assume "fst (main argv w) = None"
  with Nil show ?thesis by (simp add: main_missing_argument)
next
  case (Cons s t)
  assume ok: "fst (main argv w) = None"
  show ?thesis
  proof (cases t)
    case Nil
    with Cons ok show ?thesis by (simp add: main_missing_argument)
  next
    case t: (Cons a r)
    show ?thesis
    proof (cases "py_int a")
      case (Inl e)
      with Cons t ok show ?thesis by (simp add: main_parse_error)
    next
      case (Inr day)
      with Cons t show ?thesis by blast
    qed
  qed
qed

lemma py_int_3: "py_int ''3'' = Inr 3"
  by (simp add: py_int_def read_sign_def is_space_def is_digit_def digit_value_def
      max_str_digits_def)

lemma py_int_abc: "py_int ''abc'' = Inl ValueError"
  by (simp add: py_int_def read_sign_def is_space_def is_digit_def digit_value_def
      max_str_digits_def)

lemma py_int_3_5: "py_int ''3.5'' = Inl ValueError"
  by (simp add: py_int_def read_sign_def is_space_def is_digit_def digit_value_def
      max_str_digits_def)


lemma py_int_minus_17: "py_int ''-17'' = Inr (- 17)"
  by (simp add: py_int_def read_sign_def is_space_def is_digit_def digit_value_def
      max_str_digits_def)

lemma argv_cases:
  "length argv < 2 \<or> (\<exists>s a r e. argv = s # a # r \<and> py_int a = Inl e) \<or>
   (\<exists>s a r day. argv = s # a # r \<and> py_int a = Inr day)"
proof (cases argv)
  case Nil
  then show ?thesis by simp
next
  case (Cons s t)
  show ?thesis
  proof (cases t)
    case Nil
    with Cons show ?thesis by simp
  next
    case t: (Cons a r)
    with Cons show ?thesis by (cases "py_int a") auto
  qed
qed

lemma rows_table:
  "rows \<lparr>nrows = 2, columns =
       [(''day'', [1, 2]), (''num_passengers'', [3, 4]), (''month'', [2, 2])]\<rparr> =
   [[(''day'', 1), (''num_passengers'', 3), (''month'', 2)],
    [(''day'', 2), (''num_passengers'', 4), (''month'', 2)]]"
  by (simp add: rows_def numeral_2_eq_2)

section \<open>The claims\<close>

text \<open>
  C1. Invoked with the single argument "3", the script ends without an exception, so the
  process exits with status 0; it writes one file, at the path output_2.parquet, and the
  file holds exactly the two rows (day=1, num_passengers=3, month=2) and
  (day=2, num_passengers=4, month=2), in this order. This holds for every script name and
  every state of the console and the files before the run.
\<close>

theorem single_argument_3:
  "fst (main [script, ''3''] w) = None \<and>
   exit_code (fst (main [script, ''3''] w)) = 0 \<and>
   written (events (snd (main [script, ''3''] w))) =
     written (events w) @ [(''output_2.parquet'', \<lparr>nrows = 2, columns =
       [(''day'', [1, 2]), (''num_passengers'', [3, 4]), (''month'', [2, 2])]\<rparr>)] \<and>
   files (snd (main [script, ''3''] w)) ''output_2.parquet'' = Some \<lparr>nrows = 2, columns =
       [(''day'', [1, 2]), (''num_passengers'', [3, 4]), (''month'', [2, 2])]\<rparr> \<and>
   rows \<lparr>nrows = 2, columns =
       [(''day'', [1, 2]), (''num_passengers'', [3, 4]), (''month'', [2, 2])]\<rparr> =
     [[(''day'', 1), (''num_passengers'', 3), (''month'', 2)],
      [(''day'', 2), (''num_passengers'', 4), (''month'', 2)]]"
  using main_parsed [OF py_int_3, of script "[]" w]
  by (simp add: written_append rows_table)

theorem single_argument_3_witness:
  "fst (main [''pipeline.py'', ''3''] \<lparr>events = [], files = Map.empty\<rparr>) = None \<and>
   exit_code (fst (main [''pipeline.py'', ''3''] \<lparr>events = [], files = Map.empty\<rparr>)) = 0 \<and>
   files (snd (main [''pipeline.py'', ''3''] \<lparr>events = [], files = Map.empty\<rparr>))
     ''output_2.parquet'' = Some \<lparr>nrows = 2, columns =
       [(''day'', [1, 2]), (''num_passengers'', [3, 4]), (''month'', [2, 2])]\<rparr>"
  using single_argument_3 [of "''pipeline.py''" "\<lparr>events = [], files = Map.empty\<rparr>"]
  by simp

text \<open>
  C2. For every two runs whose first arguments both parse as integers, whatever the two
  parsed days, the script names and the further arguments are, the runs started in the
  same world end with the same status and the same files, and they write the same thing:
  one file, at the path output_2.parquet, holding the same table, whose month column is 2
  in every row. The content of a file is the table handed to the writer, so equal tables
  are equal contents.
\<close>

theorem output_independent_of_day:
  assumes "py_int a = Inr d" and "py_int b = Inr e"
  shows "fst (main (s # a # r) w) = fst (main (s' # b # r') w) \<and>
    files (snd (main (s # a # r) w)) = files (snd (main (s' # b # r') w)) \<and>
    written (events (snd (main (s # a # r) w))) =
      written (events (snd (main (s' # b # r') w))) \<and>
    written (events (snd (main (s # a # r) w))) =
      written (events w) @ [(''output_2.parquet'', \<lparr>nrows = 2, columns =
       [(''day'', [1, 2]), (''num_passengers'', [3, 4]), (''month'', [2, 2])]\<rparr>)]"
  using main_parsed [OF assms(1), of s r w] main_parsed [OF assms(2), of s' r' w]
  by (simp add: written_append)

theorem output_independent_of_day_witness:
  "py_int ''3'' = Inr 3 \<and> py_int ''-17'' = Inr (- 17) \<and>
   files (snd (main [''pipeline.py'', ''3''] \<lparr>events = [], files = Map.empty\<rparr>)) =
     files (snd (main [''pipeline.py'', ''-17''] \<lparr>events = [], files = Map.empty\<rparr>)) \<and>
   written (events (snd (main [''pipeline.py'', ''3''] \<lparr>events = [], files = Map.empty\<rparr>))) =
     written (events (snd (main [''pipeline.py'', ''-17''] \<lparr>events = [], files = Map.empty\<rparr>)))"
  using output_independent_of_day [OF py_int_3 py_int_minus_17,
      of "''pipeline.py''" "[]" "\<lparr>events = [], files = Map.empty\<rparr>" "''pipeline.py''" "[]"]
  by (simp add: py_int_3 py_int_minus_17)

text \<open>
  C3. When the first argument is not a valid integer literal, the run ends with the
  parse error (Python's \<open>ValueError\<close>) uncaught, so the process exits with a nonzero
  status; no file is written and the files are those of before the run.
\<close>

theorem invalid_argument_fails:
  assumes "\<not> int_literal a"
  shows "fst (main (s # a # r) w) = Some ValueError \<and>
    exit_code (fst (main (s # a # r) w)) \<noteq> 0 \<and>
    files (snd (main (s # a # r) w)) = files w \<and>
    written (events (snd (main (s # a # r) w))) = written (events w)"
proof -
  from assms have "py_int a = Inl ValueError"
    by (simp add: py_int_rejects_iff)
  from main_parse_error [OF this, of s r w] show ?thesis
    by (simp add: written_append)
qed

theorem invalid_argument_fails_witness:
  "\<not> int_literal ''abc'' \<and>
   fst (main [''pipeline.py'', ''abc''] \<lparr>events = [], files = Map.empty\<rparr>) = Some ValueError \<and>
   exit_code (fst (main [''pipeline.py'', ''abc''] \<lparr>events = [], files = Map.empty\<rparr>)) \<noteq> 0 \<and>
   files (snd (main [''pipeline.py'', ''abc''] \<lparr>events = [], files = Map.empty\<rparr>)) = Map.empty \<and>
   written (events (snd (main [''pipeline.py'', ''abc''] \<lparr>events = [], files = Map.empty\<rparr>))) = []"
proof -
  have n: "\<not> int_literal ''abc''"
    using py_int_abc by (simp add: py_int_rejects_iff count_digits_def is_digit_def max_str_digits_def)
  from invalid_argument_fails [OF n, of "''pipeline.py''" "[]" "\<lparr>events = [], files = Map.empty\<rparr>"] n
  show ?thesis by simp
qed

text \<open>
  C4. Invoked with no command-line argument (the argument vector holds the script name
  only), the run ends with \<open>IndexError\<close> uncaught, so the process exits with a nonzero
  status; no file is written and the files are those of before the run.
\<close>

theorem missing_argument_fails:
  "fst (main [script] w) = Some IndexError \<and>
   exit_code (fst (main [script] w)) \<noteq> 0 \<and>
   files (snd (main [script] w)) = files w \<and>
   written (events (snd (main [script] w))) = written (events w)"
  using main_missing_argument [of "[script]" w]
  by (simp add: written_append)

theorem missing_argument_fails_witness:
  "fst (main [''pipeline.py''] \<lparr>events = [], files = Map.empty\<rparr>) = Some IndexError \<and>
   exit_code (fst (main [''pipeline.py''] \<lparr>events = [], files = Map.empty\<rparr>)) \<noteq> 0 \<and>
   files (snd (main [''pipeline.py''] \<lparr>events = [], files = Map.empty\<rparr>)) = Map.empty \<and>
   written (events (snd (main [''pipeline.py''] \<lparr>events = [], files = Map.empty\<rparr>))) = []"
  using missing_argument_fails [of "''pipeline.py''" "\<lparr>events = [], files = Map.empty\<rparr>"]
  by simp

text \<open>
  C5. On every run that ends without an exception, for every argument vector and every
  world before the run, the paths written are those written before plus exactly one,
  output_2.parquet: the script builds it from the constant month 2 as
  \<open>''output_'' @ py_str 2 @ ''.parquet''\<close>, and the day argument has no part in it. The
  files after the run are those of before plus the file at this path.
\<close>

theorem output_path_constant:
  assumes "fst (main argv w) = None"
  shows "map fst (written (events (snd (main argv w)))) =
      map fst (written (events w)) @ [''output_'' @ py_str 2 @ ''.parquet''] \<and>
    ''output_'' @ py_str 2 @ ''.parquet'' = ''output_2.parquet'' \<and>
    dom (files (snd (main argv w))) = insert ''output_2.parquet'' (dom (files w))"
proof -
  from main_success [OF assms] obtain s a r day
    where argv: "argv = s # a # r" and day: "py_int a = Inr day"
    by blast
  from main_parsed [OF day, of s r w] argv show ?thesis
    by (simp add: written_append py_str_2)
qed

theorem output_path_constant_witness:
  "fst (main [''pipeline.py'', ''3''] \<lparr>events = [], files = Map.empty\<rparr>) = None \<and>
   map fst (written (events (snd (main [''pipeline.py'', ''3''] \<lparr>events = [], files = Map.empty\<rparr>)))) = [''output_2.parquet''] \<and>
   dom (files (snd (main [''pipeline.py'', ''3''] \<lparr>events = [], files = Map.empty\<rparr>))) = {''output_2.parquet''}"
proof -
  have ok: "fst (main [''pipeline.py'', ''3''] \<lparr>events = [], files = Map.empty\<rparr>) = None"
    using main_parsed [OF py_int_3, of "''pipeline.py''" "[]" "\<lparr>events = [], files = Map.empty\<rparr>"] by simp
  from output_path_constant [OF ok] ok show ?thesis
    by simp
qed

text \<open>
  C6. On every run that ends without an exception, the table written to output_2.parquet
  has exactly the three columns day, num_passengers and month, in this order, each a
  column of two integers, and exactly two rows.
\<close>

theorem written_table_schema:
  assumes "fst (main argv w) = None"
  shows "\<exists>t. written (events (snd (main argv w))) =
        written (events w) @ [(''output_2.parquet'', t)] \<and>
      files (snd (main argv w)) ''output_2.parquet'' = Some t \<and>
      map fst (columns t) = [''day'', ''num_passengers'', ''month''] \<and>
      list_all (\<lambda>(k, vs). length vs = 2) (columns t) \<and>
      nrows t = 2 \<and> length (rows t) = 2"
proof -
  from main_success [OF assms] obtain s a r day
    where argv: "argv = s # a # r" and day: "py_int a = Inr day"
    by blast
  from main_parsed [OF day, of s r w] argv show ?thesis
    by (simp add: written_append rows_table)
qed

theorem written_table_schema_witness:
  "fst (main [''pipeline.py'', ''3''] \<lparr>events = [], files = Map.empty\<rparr>) = None \<and>
   (\<exists>t. files (snd (main [''pipeline.py'', ''3''] \<lparr>events = [], files = Map.empty\<rparr>)) ''output_2.parquet'' = Some t \<and>
      map fst (columns t) = [''day'', ''num_passengers'', ''month''] \<and>
      nrows t = 2 \<and> length (rows t) = 2)"
proof -
  have ok: "fst (main [''pipeline.py'', ''3''] \<lparr>events = [], files = Map.empty\<rparr>) = None"
    using main_parsed [OF py_int_3, of "''pipeline.py''" "[]" "\<lparr>events = [], files = Map.empty\<rparr>"] by simp
  from written_table_schema [OF ok] ok show ?thesis
    by (elim exE conjE) simp
qed

text \<open>
  C7. Running the script a second time with the same arguments, in the world the first run
  left, ends with the same status and leaves the files as the first run left them. When
  the first run ended without an exception, the file output_2.parquet exists after it and
  the two runs wrote the same table to this same path, the second over the first.
\<close>

theorem rerun_idempotent:
  "fst (main argv (snd (main argv w))) = fst (main argv w) \<and>
   files (snd (main argv (snd (main argv w)))) = files (snd (main argv w)) \<and>
   (fst (main argv w) = None \<longrightarrow>
      (\<exists>t. files (snd (main argv w)) ''output_2.parquet'' = Some t \<and>
           written (events (snd (main argv (snd (main argv w))))) =
             written (events w) @ [(''output_2.parquet'', t), (''output_2.parquet'', t)]))"
proof -
  from argv_cases [of argv] consider
      (missing) "length argv < 2"
    | (invalid) s a r e where "argv = s # a # r" "py_int a = Inl e"
    | (parsed) s a r day where "argv = s # a # r" "py_int a = Inr day"
    by blast
  then show ?thesis
  proof cases
    case missing
    then show ?thesis by (simp add: main_missing_argument)
  next
    case invalid
    then show ?thesis by (simp add: main_parse_error)
  next
    case parsed
    then show ?thesis by (simp add: main_parsed written_append)
  qed
qed

theorem rerun_idempotent_witness:
  "fst (main [''pipeline.py'', ''3''] \<lparr>events = [], files = Map.empty\<rparr>) = None \<and>
   fst (main [''pipeline.py'', ''3''] (snd (main [''pipeline.py'', ''3''] \<lparr>events = [], files = Map.empty\<rparr>))) = None \<and>
   files (snd (main [''pipeline.py'', ''3''] (snd (main [''pipeline.py'', ''3''] \<lparr>events = [], files = Map.empty\<rparr>)))) =
     files (snd (main [''pipeline.py'', ''3''] \<lparr>events = [], files = Map.empty\<rparr>)) \<and>
   (\<exists>t. files (snd (main [''pipeline.py'', ''3''] \<lparr>events = [], files = Map.empty\<rparr>)) ''output_2.parquet'' = Some t \<and>
        written (events (snd (main [''pipeline.py'', ''3''] (snd (main [''pipeline.py'', ''3''] \<lparr>events = [], files = Map.empty\<rparr>))))) =
          [(''output_2.parquet'', t), (''output_2.parquet'', t)])"
proof -
  have ok: "fst (main [''pipeline.py'', ''3''] \<lparr>events = [], files = Map.empty\<rparr>) = None"
    using main_parsed [OF py_int_3, of "''pipeline.py''" "[]" "\<lparr>events = [], files = Map.empty\<rparr>"] by simp
  from rerun_idempotent [of "[''pipeline.py'', ''3'']" "\<lparr>events = [], files = Map.empty\<rparr>"] ok show ?thesis
    by simp
qed

text \<open>
  C8. The effects of a run come in the order of the script. On every run, whatever the
  argument vector, the first effect is the print of the raw argument vector; nothing else
  follows when the first argument is missing or does not parse, so the print precedes the
  parse. When the first argument parses, exactly three more effects follow: the print of
  the message naming the parsed day, the print of the head of the table, and last the one
  file write: three prints and one write in all.
\<close>

theorem effects_in_order:
  "events (snd (main argv w)) =
     events w @ Print [Str ''arguments'', StrList argv] #
       (case getitem argv 1 of
          Inl e \<Rightarrow> []
        | Inr a \<Rightarrow>
            (case py_int a of
               Inl e \<Rightarrow> []
             | Inr day \<Rightarrow>
                 [Print [Str (''Running pipeline for day '' @ py_str day)],
                  Print [Frame \<lparr>nrows = 2, columns =
       [(''day'', [1, 2]), (''num_passengers'', [3, 4]), (''month'', [2, 2])]\<rparr>],
                  Write ''output_2.parquet'' \<lparr>nrows = 2, columns =
       [(''day'', [1, 2]), (''num_passengers'', [3, 4]), (''month'', [2, 2])]\<rparr>])) \<and>
   (fst (main argv w) = None \<longrightarrow>
      length (printed (drop (length (events w)) (events (snd (main argv w))))) = 3 \<and>
      length (written (drop (length (events w)) (events (snd (main argv w))))) = 1 \<and>
      (\<exists>path t. last (events (snd (main argv w))) = Write path t)) \<and>
   (fst (main argv w) \<noteq> None \<longrightarrow>
      drop (length (events w)) (events (snd (main argv w))) =
        [Print [Str ''arguments'', StrList argv]])"
proof -
  from argv_cases [of argv] consider
      (missing) "length argv < 2"
    | (invalid) s a r e where "argv = s # a # r" "py_int a = Inl e"
    | (parsed) s a r day where "argv = s # a # r" "py_int a = Inr day"
    by blast
  then show ?thesis
  proof cases
    case missing
    then show ?thesis by (simp add: main_missing_argument getitem_def)
  next
    case invalid
    then show ?thesis by (simp add: main_parse_error getitem_def)
  next
    case parsed
    then show ?thesis by (simp add: main_parsed getitem_def)
  qed
qed

theorem effects_in_order_witness:
  "fst (main [''pipeline.py'', ''3''] \<lparr>events = [], files = Map.empty\<rparr>) = None \<and>
   events (snd (main [''pipeline.py'', ''3''] \<lparr>events = [], files = Map.empty\<rparr>)) =
     [Print [Str ''arguments'', StrList [''pipeline.py'', ''3'']],
      Print [Str ''Running pipeline for day 3''],
      Print [Frame \<lparr>nrows = 2, columns =
       [(''day'', [1, 2]), (''num_passengers'', [3, 4]), (''month'', [2, 2])]\<rparr>],
      Write ''output_2.parquet'' \<lparr>nrows = 2, columns =
       [(''day'', [1, 2]), (''num_passengers'', [3, 4]), (''month'', [2, 2])]\<rparr>] \<and>
   length (printed (events (snd (main [''pipeline.py'', ''3''] \<lparr>events = [], files = Map.empty\<rparr>)))) = 3 \<and>
   length (written (events (snd (main [''pipeline.py'', ''3''] \<lparr>events = [], files = Map.empty\<rparr>)))) = 1 \<and>
   fst (main [''pipeline.py'', ''abc''] \<lparr>events = [], files = Map.empty\<rparr>) \<noteq> None \<and>
   events (snd (main [''pipeline.py'', ''abc''] \<lparr>events = [], files = Map.empty\<rparr>)) =
     [Print [Str ''arguments'', StrList [''pipeline.py'', ''abc'']]]"
proof -
  have three: "py_str 3 = ''3''"
    by (simp add: py_str_def str_nat.simps)
  have ok: "fst (main [''pipeline.py'', ''3''] \<lparr>events = [], files = Map.empty\<rparr>) = None"
    using main_parsed [OF py_int_3, of "''pipeline.py''" "[]" "\<lparr>events = [], files = Map.empty\<rparr>"] by simp
  have bad: "fst (main [''pipeline.py'', ''abc''] \<lparr>events = [], files = Map.empty\<rparr>) \<noteq> None"
    using main_parse_error [OF py_int_abc, of "''pipeline.py''" "[]" "\<lparr>events = [], files = Map.empty\<rparr>"] by simp
  from effects_in_order [of "[''pipeline.py'', ''3'']" "\<lparr>events = [], files = Map.empty\<rparr>"]
    effects_in_order [of "[''pipeline.py'', ''abc'']" "\<lparr>events = [], files = Map.empty\<rparr>"] ok bad
  show ?thesis
    by (simp add: getitem_def py_int_3 py_int_abc three)
qed

text \<open>
  C9. Only the first command-line argument is consumed. For every script name, first
  argument and two lists of further arguments, the subscription \<open>sys.argv[1]\<close> yields the
  first argument, and the two runs started in the same world end with the same status,
  the same files and the same file writes; their effects differ in the first print alone,
  which shows the whole argument vector, and are the same after it.
\<close>

theorem extra_arguments_ignored:
  "getitem (s # a # r) 1 = Inr a \<and>
   fst (main (s # a # r) w) = fst (main (s # a # r') w) \<and>
   files (snd (main (s # a # r) w)) = files (snd (main (s # a # r') w)) \<and>
   written (events (snd (main (s # a # r) w))) = written (events (snd (main (s # a # r') w))) \<and>
   events (snd (main (s # a # r) w)) =
     events w @ Print [Str ''arguments'', StrList (s # a # r)] #
       drop (Suc (length (events w))) (events (snd (main (s # a # r') w)))"
proof (cases "py_int a")
  case (Inl e)
  then show ?thesis by (simp add: main_parse_error getitem_def written_append)
next
  case (Inr day)
  then show ?thesis by (simp add: main_parsed getitem_def written_append)
qed

theorem extra_arguments_ignored_witness:
  "getitem [''pipeline.py'', ''3'', ''4'', ''x''] 1 = Inr ''3'' \<and>
   fst (main [''pipeline.py'', ''3'', ''4'', ''x''] \<lparr>events = [], files = Map.empty\<rparr>) = fst (main [''pipeline.py'', ''3''] \<lparr>events = [], files = Map.empty\<rparr>) \<and>
   files (snd (main [''pipeline.py'', ''3'', ''4'', ''x''] \<lparr>events = [], files = Map.empty\<rparr>)) =
     files (snd (main [''pipeline.py'', ''3''] \<lparr>events = [], files = Map.empty\<rparr>)) \<and>
   written (events (snd (main [''pipeline.py'', ''3'', ''4'', ''x''] \<lparr>events = [], files = Map.empty\<rparr>))) =
     written (events (snd (main [''pipeline.py'', ''3''] \<lparr>events = [], files = Map.empty\<rparr>)))"
  using extra_arguments_ignored [of "''pipeline.py''" "''3''" "[''4'', ''x'']" "\<lparr>events = [], files = Map.empty\<rparr>" "[]"]
  by (elim conjE, intro conjI) assumption+

text \<open>
  C10, as stated: the parser \<open>int\<close> accepts exactly the integer literals (decimal digits,
  optionally signed and optionally surrounded by whitespace). This fails on the code: the
  string of 4301 digits 1 is such a literal, and the parser refuses it with the parse
  error, as the run with it as first argument does, because it has more digits than the
  interpreter's limit.
\<close>

theorem int_refuses_long_literal:
  "int_literal (replicate 4301 CHR ''1'') \<and>
   py_int (replicate 4301 CHR ''1'') = Inl ValueError \<and>
   fst (main [''pipeline.py'', replicate 4301 CHR ''1''] \<lparr>events = [], files = Map.empty\<rparr>) = Some ValueError"
proof -
  have lit: "int_literal (replicate 4301 CHR ''1'')"
    using int_literal_ones [of 4300] by simp
  have bad: "py_int (replicate 4301 CHR ''1'') = Inl ValueError"
    by (rule py_int_long_ones) (simp add: max_str_digits_def)
  from main_parse_error [OF bad, of "''pipeline.py''" "[]" "\<lparr>events = [], files = Map.empty\<rparr>"] lit bad
  show ?thesis by simp
qed

text \<open>
  C10, amended. The parser \<open>int\<close> accepts exactly the integer literals of at most 4300
  digits, the interpreter's limit: it returns an integer on a string if and only if the
  string is decimal digits, optionally signed and optionally surrounded by whitespace, with
  no more than 4300 digits, and it raises the parse error on every other string. The
  numeric but non-integer argument "3.5" is no literal: parsing it raises the parse
  error, and so does the run with it as first argument.
\<close>

theorem int_accepts_exactly_short_literals:
  "((\<exists>n. py_int t = Inr n) \<longleftrightarrow> int_literal t \<and> count_digits t \<le> 4300) \<and>
   (py_int t = Inl ValueError \<longleftrightarrow> \<not> (int_literal t \<and> count_digits t \<le> 4300)) \<and>
   \<not> int_literal ''3.5'' \<and>
   py_int ''3.5'' = Inl ValueError \<and>
   fst (main (s # ''3.5'' # r) w) = Some ValueError"
proof -
  have "(\<exists>n. py_int t = Inr n) \<longleftrightarrow> int_literal t \<and> count_digits t \<le> max_str_digits"
    using py_int_accepts_literal py_int_literal by blast
  moreover have "count_digits ''3.5'' \<le> max_str_digits"
    by (simp add: count_digits_def is_digit_def max_str_digits_def)
  with py_int_3_5 have "\<not> int_literal ''3.5''"
    by (simp add: py_int_rejects_iff)
  moreover have "fst (main (s # ''3.5'' # r) w) = Some ValueError"
    using main_parse_error [OF py_int_3_5, of s r w] by simp
  moreover have "max_str_digits = 4300"
    by (simp add: max_str_digits_def)
  ultimately show ?thesis
    using py_int_rejects_iff [of t] py_int_3_5 by simp
qed

theorem int_accepts_exactly_short_literals_witness:
  "int_literal ''3'' \<and> count_digits ''3'' \<le> 4300 \<and> \<not> int_literal ''3.5'' \<and>
   fst (main [''pipeline.py'', ''3.5''] \<lparr>events = [], files = Map.empty\<rparr>) = Some ValueError"
  using int_accepts_exactly_short_literals [of "''3''" "''pipeline.py''" "[]" "\<lparr>events = [], files = Map.empty\<rparr>"] py_int_3
  by simp

end
